theory Spec2Isabelle
  imports Main
begin

section \<open>JavaScript values\<close>

text \<open>
  A JavaScript string is modelled as a \<^typ>\<open>string\<close>, one \<^typ>\<open>char\<close> per code unit, so the
  model covers the strings whose code units are below 256. On these,
  \<^verbatim>\<open>String.prototype.toLowerCase\<close> maps \<^verbatim>\<open>A-Z\<close> and the Latin-1 capitals
  (192 to 222, except the multiplication sign 215) to the code unit 32 above and leaves every
  other code unit alone.
\<close>

definition toLowerCase_char :: "char \<Rightarrow> char" where
  "toLowerCase_char c =
     (let n = (of_char c :: nat) in
      if (65 \<le> n \<and> n \<le> 90) \<or> (192 \<le> n \<and> n \<le> 222 \<and> n \<noteq> 215)
      then char_of (n + 32) else c)"

definition toLowerCase :: "string \<Rightarrow> string" where
  "toLowerCase s = map toLowerCase_char s"

text \<open>
  A property of \<^verbatim>\<open>req.body\<close> is a string or something else (a number, an array, a nested
  object, \<^verbatim>\<open>null\<close>); a property that is absent is looked up as \<^const>\<open>None\<close>.
  \<^verbatim>\<open>express.urlencoded\<close> and \<^verbatim>\<open>express.json\<close> leave \<^verbatim>\<open>req.body\<close> an object.
\<close>

datatype jsval = Str string | NonString

type_synonym body = "(string \<times> jsval) list"

section \<open>External libraries\<close>

text \<open>
  The handlers call Joi, bcrypt and the MongoDB driver. What these libraries compute is not
  part of the program: it is a parameter of the model.
  \<^item> \<open>email_valid\<close>: the check of \<^verbatim>\<open>Joi.string().email()\<close> on a non-empty string;
  \<^item> \<open>joi_message\<close>: the text of \<^verbatim>\<open>error.message\<close>;
  \<^item> \<open>bcrypt_hash\<close>: \<^verbatim>\<open>bcrypt.hash(password, 10)\<close>, with the salt it draws;
  \<^item> \<open>bcrypt_compare\<close>: \<^verbatim>\<open>bcrypt.compare(data, hash)\<close>;
  \<^item> \<open>new_ObjectId\<close>: \<^verbatim>\<open>new ObjectId(req.body.userId)\<close>, which throws (\<^const>\<open>None\<close>) on
    an argument that is no ObjectId.
  An ObjectId is written as its 24 hexadecimal digits.
\<close>

type_synonym objectid = string

datatype joi_error =
    Required string
  | NotString string
  | Empty string
  | TooLong string nat
  | TooShort string nat
  | NotEmail string
  | NotAllowed string

record lib =
  email_valid :: "string \<Rightarrow> bool"
  joi_message :: "joi_error \<Rightarrow> string"
  bcrypt_hash :: "string \<Rightarrow> string"
  bcrypt_compare :: "string \<Rightarrow> string \<Rightarrow> bool"
  new_ObjectId :: "jsval option \<Rightarrow> objectid option"

section \<open>Joi schemas\<close>

text \<open>
  \<^verbatim>\<open>Joi.string()...required()\<close>: the key must be present, a string and not empty; then the
  rules of the schema are checked in the order written. \<^verbatim>\<open>Joi.object\<close> validates its keys in
  the order of the schema, stops at the first error, and rejects a key the schema does not
  name.
\<close>

datatype rule = Max nat | Min nat | Email

fun check_rule :: "lib \<Rightarrow> string \<Rightarrow> rule \<Rightarrow> string \<Rightarrow> joi_error option" where
  "check_rule L k (Max n) s = (if length s \<le> n then None else Some (TooLong k n))"
| "check_rule L k (Min n) s = (if n \<le> length s then None else Some (TooShort k n))"
| "check_rule L k Email s = (if email_valid L s then None else Some (NotEmail k))"

fun check_rules :: "lib \<Rightarrow> string \<Rightarrow> rule list \<Rightarrow> string \<Rightarrow> joi_error option" where
  "check_rules L k [] s = None"
| "check_rules L k (r # rs) s =
     (case check_rule L k r s of Some e \<Rightarrow> Some e | None \<Rightarrow> check_rules L k rs s)"

definition string_required :: "lib \<Rightarrow> string \<Rightarrow> rule list \<Rightarrow> jsval option \<Rightarrow> joi_error + string" where
  "string_required L k rs v =
     (case v of
        None \<Rightarrow> Inl (Required k)
      | Some NonString \<Rightarrow> Inl (NotString k)
      | Some (Str s) \<Rightarrow>
          if s = [] then Inl (Empty k)
          else (case check_rules L k rs s of Some e \<Rightarrow> Inl e | None \<Rightarrow> Inr s))"

definition unknown_keys :: "string list \<Rightarrow> body \<Rightarrow> string list" where
  "unknown_keys ks b = filter (\<lambda>k. k \<notin> set ks) (map fst b)"

text \<open>The schema of \<^verbatim>\<open>POST /signupSubmit\<close>; the result is \<^verbatim>\<open>{ name, email, password }\<close>
  (primed here, the plain names being the fields of a user document).\<close>

definition signupSchema :: "lib \<Rightarrow> body \<Rightarrow> joi_error + (string \<times> string \<times> string)" where
  "signupSchema L b =
     (case string_required L ''name'' [Max 30] (map_of b ''name'') of
        Inl e \<Rightarrow> Inl e
      | Inr name' \<Rightarrow>
     (case string_required L ''email'' [Email] (map_of b ''email'') of
        Inl e \<Rightarrow> Inl e
      | Inr email' \<Rightarrow>
     (case string_required L ''password'' [Min 6] (map_of b ''password'') of
        Inl e \<Rightarrow> Inl e
      | Inr password' \<Rightarrow>
     (case unknown_keys [''name'', ''email'', ''password''] b of
        k # _ \<Rightarrow> Inl (NotAllowed k)
      | [] \<Rightarrow> Inr (name', email', password')))))"

text \<open>The schema of \<^verbatim>\<open>POST /loginSubmit\<close>; the result is \<^verbatim>\<open>{ email, password }\<close>.\<close>

definition loginSchema :: "lib \<Rightarrow> body \<Rightarrow> joi_error + (string \<times> string)" where
  "loginSchema L b =
     (case string_required L ''email'' [Email] (map_of b ''email'') of
        Inl e \<Rightarrow> Inl e
      | Inr email' \<Rightarrow>
     (case string_required L ''password'' [] (map_of b ''password'') of
        Inl e \<Rightarrow> Inl e
      | Inr password' \<Rightarrow>
     (case unknown_keys [''email'', ''password''] b of
        k # _ \<Rightarrow> Inl (NotAllowed k)
      | [] \<Rightarrow> Inr (email', password'))))"

section \<open>The users collection and the session store\<close>

text \<open>
  A document of the \<^verbatim>\<open>users\<close> collection. \<open>uid\<close> is its \<^verbatim>\<open>_id\<close>. The field \<^verbatim>\<open>type\<close> may be
  missing: the login handler reads it as \<^verbatim>\<open>user.type || 'user'\<close>.
\<close>

record user =
  uid :: objectid
  name :: string
  email :: string
  password :: string
  type :: "string option"

text \<open>\<^verbatim>\<open>req.session.user\<close>; the signup handler stores no \<^verbatim>\<open>id\<close>.\<close>

record session_user =
  s_id :: "objectid option"
  s_name :: string
  s_email :: string
  s_type :: string

type_synonym token = string

text \<open>
  The collection in its natural order, and the session store keyed by session id.
  \<open>sessions st tok\<close> is the \<^verbatim>\<open>req.session.user\<close> of a request that carries the session id
  \<open>tok\<close>; assigning to \<^verbatim>\<open>req.session.user\<close> stores the value under \<open>tok\<close>.
\<close>

record state =
  users :: "user list"
  sessions :: "token \<Rightarrow> session_user option"

datatype error = DuplicateKey

definition findOne_email :: "user list \<Rightarrow> string \<Rightarrow> user option" where
  "findOne_email us e = find (\<lambda>u. email u = e) us"

definition findOne_id :: "user list \<Rightarrow> objectid \<Rightarrow> user option" where
  "findOne_id us oid = find (\<lambda>u. uid u = oid) us"

text \<open>\<^verbatim>\<open>insertOne\<close>: the collection's unique index on \<^verbatim>\<open>_id\<close> rejects an id already in use.\<close>

definition insertOne :: "user list \<Rightarrow> user \<Rightarrow> error + user list" where
  "insertOne us d =
     (case findOne_id us (uid d) of
        Some _ \<Rightarrow> Inl DuplicateKey
      | None \<Rightarrow> Inr (us @ [d]))"

text \<open>\<^verbatim>\<open>updateOne({ _id: oid }, { $set: { type: t } })\<close>: the first match, if any, is updated.\<close>

fun updateOne_type :: "user list \<Rightarrow> objectid \<Rightarrow> string \<Rightarrow> user list" where
  "updateOne_type [] oid t = []"
| "updateOne_type (u # us) oid t =
     (if uid u = oid then u\<lparr>type := Some t\<rparr> # us else u # updateOne_type us oid t)"

section \<open>Responses\<close>

text \<open>
  \<open>Redirect url\<close> is \<^verbatim>\<open>res.redirect(url)\<close>, \<open>Send status text\<close> is
  \<^verbatim>\<open>res.status(status).send(text)\<close> (200 without \<^verbatim>\<open>status\<close>), \<open>SendStatus\<close> is \<^verbatim>\<open>res.sendStatus\<close>,
  \<open>Render status view locals\<close> is \<^verbatim>\<open>res.status(status).render(view, locals)\<close>. A handler
  returns the responses it issues, in order.
\<close>

datatype local = LStr string | LBool bool | LUsers "user list"

datatype response =
    Redirect string
  | Send nat string
  | SendStatus nat
  | Render nat string "(string \<times> local) list"

section \<open>Route handlers\<close>

text \<open>
  The handlers are those of the program in lines 1 to 253 of \<^verbatim>\<open>assignment2.js\<close>; the file
  holds two other versions of the program after it, which are not modelled.
\<close>

text \<open>
  \<^verbatim>\<open>POST /signupSubmit\<close>. \<open>g\<close> is the \<^verbatim>\<open>_id\<close> the driver generates for the inserted document.
  An error thrown inside \<^verbatim>\<open>try\<close> is answered with status 500.
\<close>

definition signupSubmit :: "lib \<Rightarrow> objectid \<Rightarrow> state \<Rightarrow> token \<Rightarrow> body \<Rightarrow> response list \<times> state" where
  \<open>signupSubmit L g st tok b =
     (case signupSchema L b of
        Inl err \<Rightarrow>
          ([Send 200 (''<p>'' @ joi_message L err @ ''</p><a href="/signup">Try again</a>'')], st)
      | Inr (name', email', password') \<Rightarrow>
          (let normalizedEmail = toLowerCase email' in
           case findOne_email (users st) normalizedEmail of
             Some existingUser \<Rightarrow>
               ([Send 200 ''<p>Email already registered.</p><a href="/signup">Try again</a>''], st)
           | None \<Rightarrow>
               (let hashcode = bcrypt_hash L password' in
                case insertOne (users st)
                       \<lparr>uid = g, name = name', email = normalizedEmail,
                        password = hashcode, type = Some ''user''\<rparr> of
                  Inl err \<Rightarrow>
                    ([Send 500 ''An unexpected error occurred during registration. Please try again later.''], st)
                | Inr us \<Rightarrow>
                    ([Redirect ''/members''],
                     st\<lparr>users := us,
                        sessions := (sessions st)(tok \<mapsto>
                          \<lparr>s_id = None, s_name = name', s_email = normalizedEmail,
                           s_type = ''user''\<rparr>)\<rparr>))))\<close>

text \<open>\<^verbatim>\<open>user.type || 'user'\<close>: a missing or empty \<^verbatim>\<open>type\<close> reads as \<^verbatim>\<open>'user'\<close>.\<close>

definition type_or_user :: "user \<Rightarrow> string" where
  "type_or_user u = (case type u of None \<Rightarrow> ''user'' | Some t \<Rightarrow> if t = [] then ''user'' else t)"

text \<open>\<^verbatim>\<open>POST /loginSubmit\<close>. The lookup uses \<^verbatim>\<open>value.email\<close> as submitted.\<close>

definition loginSubmit :: "lib \<Rightarrow> state \<Rightarrow> token \<Rightarrow> body \<Rightarrow> response list \<times> state" where
  \<open>loginSubmit L st tok b =
     (case loginSchema L b of
        Inl err \<Rightarrow>
          ([Send 200 (''<p>'' @ joi_message L err @ ''</p><a href="/login">Try again</a>'')], st)
      | Inr (email', password') \<Rightarrow>
          (case findOne_email (users st) email' of
             None \<Rightarrow>
               ([Send 200 ''<p>Invalid email/password combination</p><a href="/login">Try again</a>''], st)
           | Some u \<Rightarrow>
               if \<not> bcrypt_compare L password' (password u) then
                 ([Send 200 ''<p>Invalid email/password combination</p><a href="/login">Try again</a>''], st)
               else
                 ([Redirect ''/members''],
                  st\<lparr>sessions := (sessions st)(tok \<mapsto>
                       \<lparr>s_id = Some (uid u), s_name = name u, s_email = email u,
                        s_type = type_or_user u\<rparr>)\<rparr>)))\<close>

text \<open>\<^verbatim>\<open>GET /members\<close>.\<close>

definition members :: "state \<Rightarrow> token \<Rightarrow> response list" where
  "members st tok =
     (case sessions st tok of
        None \<Rightarrow> [Redirect ''/'']
      | Some su \<Rightarrow>
          [Render 200 ''members''
             [(''user'', LStr (s_name su)), (''page'', LStr ''members''),
              (''loggedInConfirmation'', LBool True),
              (''isAdmin'', LBool (s_type su = ''admin''))]])"

text \<open>\<^verbatim>\<open>GET /admin\<close>.\<close>

definition admin :: "state \<Rightarrow> token \<Rightarrow> response list" where
  "admin st tok =
     (case sessions st tok of
        None \<Rightarrow> [Redirect ''/login'']
      | Some su \<Rightarrow>
          if s_type su \<noteq> ''admin'' then [Render 403 ''403'' [(''page'', LStr ''403'')]]
          else
            [Render 200 ''admin''
               [(''users'', LUsers (users st)), (''loggedInConfirmation'', LBool True),
                (''isAdmin'', LBool True), (''page'', LStr ''admin'')]])"

text \<open>
  \<^verbatim>\<open>POST /admin/promote\<close>. \<^verbatim>\<open>new ObjectId\<close> throws inside \<^verbatim>\<open>try\<close>; the update is issued
  without looking the target up.
\<close>

definition promote :: "lib \<Rightarrow> state \<Rightarrow> token \<Rightarrow> body \<Rightarrow> response list \<times> state" where
  "promote L st tok b =
     (case sessions st tok of
        None \<Rightarrow> ([SendStatus 403], st)
      | Some su \<Rightarrow>
          if s_type su \<noteq> ''admin'' then ([SendStatus 403], st)
          else
            (case new_ObjectId L (map_of b ''userId'') of
               None \<Rightarrow> ([Render 500 ''error'' [(''message'', LStr ''Error promoting user'')]], st)
             | Some oid \<Rightarrow>
                 ([Redirect ''/admin''],
                  st\<lparr>users := updateOne_type (users st) oid ''admin''\<rparr>)))"

text \<open>
  \<^verbatim>\<open>POST /admin/demote\<close>. When no target is found the handler renders the 404 page and goes
  on (the branch has no \<^verbatim>\<open>return\<close>): reading \<^verbatim>\<open>targetUser.email\<close> of \<^verbatim>\<open>null\<close> throws a
  TypeError, and the \<^verbatim>\<open>catch\<close> block issues the status 500 page. The update is not reached.
\<close>

definition cannot_demote_yourself :: string where
  \<open>cannot_demote_yourself =
     [CHR 0x0A] @ replicate 24 CHR '' '' @ ''<p>You cannot demote yourself.</p>'' @
     [CHR 0x0A] @ replicate 24 CHR '' '' @ ''<a href="/admin">Go back</a>'' @
     [CHR 0x0A] @ replicate 20 CHR '' ''\<close>

definition demote :: "lib \<Rightarrow> state \<Rightarrow> token \<Rightarrow> body \<Rightarrow> response list \<times> state" where
  "demote L st tok b =
     (case sessions st tok of
        None \<Rightarrow> ([SendStatus 403], st)
      | Some su \<Rightarrow>
          if s_type su \<noteq> ''admin'' then ([SendStatus 403], st)
          else
            (case new_ObjectId L (map_of b ''userId'') of
               None \<Rightarrow> ([Render 500 ''error'' [(''message'', LStr ''Error demoting user'')]], st)
             | Some oid \<Rightarrow>
                 (case findOne_id (users st) oid of
                    None \<Rightarrow>
                      ([Render 404 ''404'' [(''page'', LStr ''404'')],
                        Render 500 ''error'' [(''message'', LStr ''Error demoting user'')]], st)
                  | Some targetUser \<Rightarrow>
                      if email targetUser = s_email su then ([Send 200 cannot_demote_yourself], st)
                      else
                        ([Redirect ''/admin''],
                         st\<lparr>users := updateOne_type (users st) oid ''user''\<rparr>))))"

section \<open>A concrete instance\<close>

text \<open>
  A small instance of the library parameters and two sample states, on which the handlers
  can be run: an e-mail address is accepted when it contains \<^verbatim>\<open>@\<close>, a hash is the reversed
  password behind the prefix of a bcrypt hash, and an ObjectId is any string of 24 characters.
\<close>

definition demo_lib :: lib where
  "demo_lib =
     \<lparr>email_valid = (\<lambda>s. CHR ''@'' \<in> set s),
      joi_message = (\<lambda>e. ''invalid''),
      bcrypt_hash = (\<lambda>p. ''$2b$10$'' @ rev p),
      bcrypt_compare = (\<lambda>p h. h = ''$2b$10$'' @ rev p),
      new_ObjectId = (\<lambda>v. case v of
                           None \<Rightarrow> Some (replicate 24 CHR ''0'')
                         | Some NonString \<Rightarrow> None
                         | Some (Str s) \<Rightarrow> if length s = 24 then Some s else None)\<rparr>"

definition root_user :: user where
  "root_user = \<lparr>uid = ''507f191e810c19729de860ea'', name = ''Root'', email = ''root@x.com'',
                 password = ''$2b$10$drowssap'', type = Some ''admin''\<rparr>"

definition ada_user :: user where
  "ada_user = \<lparr>uid = ''507f1f77bcf86cd799439011'', name = ''Ada'', email = ''ada@x.com'',
                password = ''$2b$10$1terces'', type = Some ''user''\<rparr>"

definition root_session :: session_user where
  "root_session = \<lparr>s_id = Some ''507f191e810c19729de860ea'', s_name = ''Root'',
                    s_email = ''root@x.com'', s_type = ''admin''\<rparr>"

definition ada_session :: session_user where
  "ada_session = \<lparr>s_id = None, s_name = ''Ada'', s_email = ''ada@x.com'', s_type = ''user''\<rparr>"

text \<open>No user and no session.\<close>

definition no_users :: state where
  "no_users = \<lparr>users = [], sessions = (\<lambda>tok. None)\<rparr>"

text \<open>The administrator alone, logged in under the session id \<^verbatim>\<open>s0\<close>.\<close>

definition root_only :: state where
  "root_only = \<lparr>users = [root_user], sessions = (\<lambda>tok. None)(''s0'' \<mapsto> root_session)\<rparr>"

text \<open>Both users, nobody logged in.\<close>

definition logged_out :: state where
  "logged_out = \<lparr>users = [root_user, ada_user], sessions = (\<lambda>tok. None)\<rparr>"

text \<open>Both users: the administrator logged in under \<^verbatim>\<open>s0\<close>, Ada signed up under \<^verbatim>\<open>s1\<close>.\<close>

definition two_users :: state where
  "two_users = \<lparr>users = [root_user, ada_user],
                 sessions = (\<lambda>tok. None)(''s0'' \<mapsto> root_session, ''s1'' \<mapsto> ada_session)\<rparr>"

definition ada_signup :: body where
  "ada_signup =
     [(''name'', Str ''Ada''), (''email'', Str ''Ada@x.com''), (''password'', Str ''secret1'')]"

definition ada_target :: body where
  "ada_target = [(''userId'', Str ''507f1f77bcf86cd799439011'')]"

definition root_target :: body where
  "root_target = [(''userId'', Str ''507f191e810c19729de860ea'')]"

definition unknown_target :: body where
  "unknown_target = [(''userId'', Str ''ffffffffffffffffffffffff'')]"

section \<open>Facts about the schemas and the collection\<close>

lemma toLowerCase_Ada: "toLowerCase ''Ada@x.com'' = ''ada@x.com''"
  by code_simp

lemma unknown_keys_Nil: "fst ` set b \<subseteq> set ks \<Longrightarrow> unknown_keys ks b = []"
  by (auto simp: unknown_keys_def filter_empty_conv)

text \<open>The signup schema accepts exactly what \<^verbatim>\<open>max(30)\<close>, \<^verbatim>\<open>email()\<close> and \<^verbatim>\<open>min(6)\<close> say.\<close>

lemma signupSchema_accepts:
  assumes "map_of b ''name'' = Some (Str n)" "map_of b ''email'' = Some (Str e)"
    "map_of b ''password'' = Some (Str p)"
    "fst ` set b \<subseteq> {''name'', ''email'', ''password''}"
    "n \<noteq> []" "length n \<le> 30" "e \<noteq> []" "email_valid L e" "6 \<le> length p"
  shows "signupSchema L b = Inr (n, e, p)"
proof -
  have "unknown_keys [''name'', ''email'', ''password''] b = []"
    using assms(4) by (intro unknown_keys_Nil) simp
  moreover have "p \<noteq> []" using assms(9) by auto
  ultimately show ?thesis
    using assms by (simp add: signupSchema_def string_required_def)
qed

lemma signupSchema_Inr:
  assumes "signupSchema L b = Inr (n, e, p)"
  shows "map_of b ''name'' = Some (Str n) \<and> map_of b ''email'' = Some (Str e)
         \<and> map_of b ''password'' = Some (Str p)
         \<and> n \<noteq> [] \<and> length n \<le> 30 \<and> e \<noteq> [] \<and> email_valid L e \<and> 6 \<le> length p"
  using assms
  by (auto simp: signupSchema_def string_required_def
      split: sum.splits option.splits jsval.splits if_splits list.splits)

lemma loginSchema_accepts:
  assumes "map_of b ''email'' = Some (Str e)" "map_of b ''password'' = Some (Str p)"
    "fst ` set b \<subseteq> {''email'', ''password''}" "e \<noteq> []" "email_valid L e" "p \<noteq> []"
  shows "loginSchema L b = Inr (e, p)"
proof -
  have "unknown_keys [''email'', ''password''] b = []"
    using assms(3) by (intro unknown_keys_Nil) simp
  then show ?thesis
    using assms by (simp add: loginSchema_def string_required_def)
qed

lemma findOne_email_member:
  "u \<in> set us \<Longrightarrow> email u = e \<Longrightarrow> \<exists>v. findOne_email us e = Some v"
  unfolding findOne_email_def by (cases "find (\<lambda>u. email u = e) us") (auto simp: find_None_iff)

lemma insertOne_fresh: "findOne_id us (uid d) = None \<Longrightarrow> insertOne us d = Inr (us @ [d])"
  by (simp add: insertOne_def)

lemma findOne_id_append:
  "findOne_id us oid = None \<Longrightarrow>
   findOne_id (us @ [d]) oid = (if uid d = oid then Some d else None)"
  by (induction us) (auto simp: findOne_id_def split: if_splits)

lemma updateOne_type_absent: "findOne_id us oid = None \<Longrightarrow> updateOne_type us oid t = us"
  by (induction us) (auto simp: findOne_id_def split: if_splits)

lemma updateOne_type_same:
  "findOne_id us oid = Some u \<Longrightarrow> type u = Some t \<Longrightarrow> updateOne_type us oid t = us"
  by (induction us) (auto simp: findOne_id_def split: if_splits)

lemma updateOne_type_append:
  "findOne_id us oid = None \<Longrightarrow>
   updateOne_type (us @ [d]) oid t = us @ [if uid d = oid then d\<lparr>type := Some t\<rparr> else d]"
  by (induction us) (auto simp: findOne_id_def split: if_splits)

text \<open>What a signup that redirects to the members page has done.\<close>

lemma signupSubmit_redirect:
  assumes "signupSubmit L g st tok b = ([Redirect ''/members''], st')"
  shows "\<exists>n e p. signupSchema L b = Inr (n, e, p)
           \<and> findOne_email (users st) (toLowerCase e) = None
           \<and> findOne_id (users st) g = None
           \<and> st' = st\<lparr>users := users st @
                       [\<lparr>uid = g, name = n, email = toLowerCase e,
                         password = bcrypt_hash L p, type = Some ''user''\<rparr>],
                     sessions := (sessions st)(tok \<mapsto>
                       \<lparr>s_id = None, s_name = n, s_email = toLowerCase e, s_type = ''user''\<rparr>)\<rparr>"
  using assms
  by (auto simp: signupSubmit_def insertOne_def Let_def
      split: sum.splits option.splits prod.splits)

text \<open>
  Two logins with the same body that both fail to redirect give the same response and
  leave their states alone.
\<close>

lemma loginSubmit_unauthenticated:
  assumes "fst (loginSubmit L sa ta b) \<noteq> [Redirect ''/members'']"
    and "fst (loginSubmit L sb tb b) \<noteq> [Redirect ''/members'']"
  shows "fst (loginSubmit L sa ta b) = fst (loginSubmit L sb tb b)
         \<and> snd (loginSubmit L sa ta b) = sa \<and> snd (loginSubmit L sb tb b) = sb"
proof (cases "loginSchema L b")
  case (Inl err)
  then show ?thesis by (simp add: loginSubmit_def)
next
  case (Inr r)
  obtain e p where r: "r = (e, p)" by (cases r)
  show ?thesis
    using assms
    by (auto simp: loginSubmit_def Inr r split: option.splits if_splits)
qed

text \<open>
  A demote by an administrator of an ObjectId that no user has: two responses are issued,
  the 404 page and then the status 500 page, and nothing is updated.
\<close>

lemma demote_unknown_target:
  assumes "sessions st tok = Some su" "s_type su = ''admin''"
    and "new_ObjectId L (map_of b ''userId'') = Some oid"
    and "findOne_id (users st) oid = None"
  shows "demote L st tok b =
           ([Render 404 ''404'' [(''page'', LStr ''404'')],
             Render 500 ''error'' [(''message'', LStr ''Error demoting user'')]], st)"
  using assms by (simp add: demote_def)

text \<open>
  A login that redirects has stored a session with the \<^verbatim>\<open>_id\<close> of the user it found. The
  \<^verbatim>\<open>_id\<close> values of a collection being distinct, that \<^verbatim>\<open>_id\<close> resolves to a user with the
  e-mail address of the session: the comparison of e-mail addresses in the demote handler
  recognises the caller's own account.
\<close>

lemma findOne_id_distinct:
  "distinct (map uid us) \<Longrightarrow> u \<in> set us \<Longrightarrow> findOne_id us (uid u) = Some u"
  by (induction us) (auto simp: findOne_id_def)

lemma findOne_email_set: "findOne_email us e = Some u \<Longrightarrow> u \<in> set us \<and> email u = e"
  unfolding findOne_email_def by (auto simp: find_Some_iff)

lemma loginSubmit_redirect:
  assumes "loginSubmit L st tok b = ([Redirect ''/members''], st')"
  shows "\<exists>e p u. loginSchema L b = Inr (e, p) \<and> findOne_email (users st) e = Some u
           \<and> bcrypt_compare L p (password u)
           \<and> st' = st\<lparr>sessions := (sessions st)(tok \<mapsto>
                       \<lparr>s_id = Some (uid u), s_name = name u, s_email = email u,
                        s_type = type_or_user u\<rparr>)\<rparr>"
  using assms
  by (auto simp: loginSubmit_def split: sum.splits option.splits prod.splits if_splits)

lemma login_session_resolves_to_user:
  assumes "loginSubmit L st tok b = ([Redirect ''/members''], st')"
    and "distinct (map uid (users st))"
  shows "\<exists>su oid targetUser. sessions st' tok = Some su \<and> s_id su = Some oid
           \<and> findOne_id (users st') oid = Some targetUser \<and> email targetUser = s_email su"
proof -
  obtain e p u where u: "findOne_email (users st) e = Some u"
    and st': "st' = st\<lparr>sessions := (sessions st)(tok \<mapsto>
                       \<lparr>s_id = Some (uid u), s_name = name u, s_email = email u,
                        s_type = type_or_user u\<rparr>)\<rparr>"
    using loginSubmit_redirect [OF assms(1)] by blast
  have "u \<in> set (users st)" using findOne_email_set [OF u] by simp
  then have "findOne_id (users st) (uid u) = Some u"
    using assms(2) by (rule findOne_id_distinct [rotated])
  then show ?thesis by (simp add: st')
qed

lemma demo_signup_accepted:
  "signupSchema demo_lib ada_signup = Inr (''Ada'', ''Ada@x.com'', ''secret1'')"
  by (simp add: signupSchema_def string_required_def unknown_keys_def ada_signup_def demo_lib_def)

section \<open>Signup\<close>

text \<open>
  C1. A signup whose body holds a non-empty name of at most 30 characters, a well-formed
  e-mail address and a password of at least 6 characters, and whose lower-cased address
  matches no user, appends exactly one user to the collection: its e-mail address is the
  lower-cased one, its type is \<^verbatim>\<open>user\<close>, and its password is the bcrypt hash, which is not the
  plaintext. The session of the request is bound to that user, and the response redirects to
  \<^verbatim>\<open>/members\<close>. The driver is taken to generate an unused \<^verbatim>\<open>_id\<close>, and bcrypt never to return
  its input.
\<close>

theorem signup_creates_user:
  assumes "map_of b ''name'' = Some (Str n)" "map_of b ''email'' = Some (Str e)"
    "map_of b ''password'' = Some (Str p)"
    "fst ` set b \<subseteq> {''name'', ''email'', ''password''}"
    and "n \<noteq> []" "length n \<le> 30" "e \<noteq> []" "email_valid L e" "6 \<le> length p"
    and "findOne_email (users st) (toLowerCase e) = None"
    and "findOne_id (users st) g = None"
    and "bcrypt_hash L p \<noteq> p"
  shows "signupSubmit L g st tok b =
           ([Redirect ''/members''],
            st\<lparr>users := users st @
                 [\<lparr>uid = g, name = n, email = toLowerCase e,
                   password = bcrypt_hash L p, type = Some ''user''\<rparr>],
               sessions := (sessions st)(tok \<mapsto>
                 \<lparr>s_id = None, s_name = n, s_email = toLowerCase e, s_type = ''user''\<rparr>)\<rparr>)
         \<and> password (last (users (snd (signupSubmit L g st tok b)))) \<noteq> p
         \<and> length (users (snd (signupSubmit L g st tok b))) = Suc (length (users st))"
proof -
  have v: "signupSchema L b = Inr (n, e, p)"
    using assms(1-9) by (rule signupSchema_accepts)
  have i: "insertOne (users st)
             \<lparr>uid = g, name = n, email = toLowerCase e,
              password = bcrypt_hash L p, type = Some ''user''\<rparr>
           = Inr (users st @ [\<lparr>uid = g, name = n, email = toLowerCase e,
              password = bcrypt_hash L p, type = Some ''user''\<rparr>])"
    using assms(11) by (simp add: insertOne_fresh)
  show ?thesis
    using assms(10,12) by (simp add: signupSubmit_def v i Let_def)
qed

theorem signup_creates_user_witness:
  "signupSubmit demo_lib ''507f1f77bcf86cd799439011'' no_users ''s1'' ada_signup =
     ([Redirect ''/members''],
      \<lparr>users = [\<lparr>uid = ''507f1f77bcf86cd799439011'', name = ''Ada'', email = ''ada@x.com'',
                  password = ''$2b$10$1terces'', type = Some ''user''\<rparr>],
       sessions = (\<lambda>tok. None)(''s1'' \<mapsto>
                  \<lparr>s_id = None, s_name = ''Ada'', s_email = ''ada@x.com'', s_type = ''user''\<rparr>)\<rparr>)"
  using signup_creates_user [of ada_signup "''Ada''" "''Ada@x.com''" "''secret1''" demo_lib no_users
      "''507f1f77bcf86cd799439011''" "''s1''"]
  by (simp add: ada_signup_def demo_lib_def no_users_def findOne_email_def findOne_id_def
      toLowerCase_Ada)

text \<open>
  C4. A signup whose e-mail address, lower-cased, is the address of a user in the collection
  leaves the collection and the sessions as they were, so no second user is created and no
  session is established; when the body passes the schema, the lookup is reached and the
  response is the message that the address is already registered.
\<close>

theorem signup_existing_email_rejected:
  assumes "map_of b ''email'' = Some (Str e)"
    and "u \<in> set (users st)" "email u = toLowerCase e"
  shows \<open>snd (signupSubmit L g st tok b) = st
         \<and> (\<forall>n e' p. signupSchema L b = Inr (n, e', p) \<longrightarrow>
               signupSubmit L g st tok b =
                 ([Send 200 ''<p>Email already registered.</p><a href="/signup">Try again</a>''], st))\<close>
proof -
  obtain v where v: "findOne_email (users st) (toLowerCase e) = Some v"
    using findOne_email_member [OF assms(2,3)] by blast
  have same: "e' = e" if "signupSchema L b = Inr (n, e', p)" for n e' p
    using signupSchema_Inr [OF that] assms(1) by simp
  show ?thesis
  proof (cases "signupSchema L b")
    case (Inl err)
    then show ?thesis by (simp add: signupSubmit_def)
  next
    case (Inr r)
    obtain n e' p where r: "r = (n, e', p)" by (cases r)
    have "e' = e" using same Inr r by simp
    then show ?thesis using Inr r v by (simp add: signupSubmit_def Let_def)
  qed
qed

theorem signup_existing_email_rejected_witness:
  \<open>signupSubmit demo_lib ''507f1f77bcf86cd799439012'' two_users ''s2'' ada_signup =
     ([Send 200 ''<p>Email already registered.</p><a href="/signup">Try again</a>''], two_users)\<close>
  using signup_existing_email_rejected [of ada_signup "''Ada@x.com''" ada_user two_users
      demo_lib "''507f1f77bcf86cd799439012''" "''s2''"] demo_signup_accepted
  by (simp add: ada_signup_def two_users_def ada_user_def toLowerCase_Ada)

section \<open>Login\<close>

text \<open>
  C2. Ada signs up with the address \<^verbatim>\<open>Ada@x.com\<close> and the password \<^verbatim>\<open>secret1\<close>; the
  collection holds \<^verbatim>\<open>ada@x.com\<close>. A login with \<^verbatim>\<open>Ada@x.com\<close> and \<^verbatim>\<open>secret1\<close> looks the
  address up as submitted, finds nobody and answers with the invalid-combination message;
  the same password with \<^verbatim>\<open>ada@x.com\<close> logs in.
\<close>

theorem login_lookup_as_submitted:
  \<open>loginSubmit demo_lib
      (snd (signupSubmit demo_lib ''507f1f77bcf86cd799439011'' no_users ''s1'' ada_signup)) ''s2''
      [(''email'', Str ''Ada@x.com''), (''password'', Str ''secret1'')] =
     ([Send 200 ''<p>Invalid email/password combination</p><a href="/login">Try again</a>''],
      snd (signupSubmit demo_lib ''507f1f77bcf86cd799439011'' no_users ''s1'' ada_signup))
   \<and> fst (loginSubmit demo_lib
      (snd (signupSubmit demo_lib ''507f1f77bcf86cd799439011'' no_users ''s1'' ada_signup)) ''s2''
      [(''email'', Str ''ada@x.com''), (''password'', Str ''secret1'')]) = [Redirect ''/members'']\<close>
proof -
  have s: "snd (signupSubmit demo_lib ''507f1f77bcf86cd799439011'' no_users ''s1'' ada_signup) =
      \<lparr>users = [ada_user], sessions = (\<lambda>tok. None)(''s1'' \<mapsto> ada_session)\<rparr>"
    by (simp add: signupSubmit_def signupSchema_def string_required_def unknown_keys_def
        ada_signup_def toLowerCase_Ada no_users_def
        findOne_email_def insertOne_def findOne_id_def demo_lib_def ada_user_def ada_session_def
        Let_def)
  show ?thesis
    unfolding s
    by (simp add: loginSubmit_def loginSchema_def string_required_def unknown_keys_def
        findOne_email_def demo_lib_def ada_user_def)
qed

text \<open>
  C3. A login that passes the schema never authenticates when the address matches no user,
  nor when it matches a user whose hash the password does not match: both are answered with
  the same invalid-combination message and leave their states, hence the sessions, as they
  were. Moreover, two logins with one and the same body, valid or not, that both fail to
  redirect to the members page give the same response whatever the collections hold.
\<close>

theorem login_failure_indistinguishable:
  assumes "loginSchema L b1 = Inr (e1, p1)" "loginSchema L b2 = Inr (e2, p2)"
    and "findOne_email (users st1) e1 = None"
    and "findOne_email (users st2) e2 = Some u" "\<not> bcrypt_compare L p2 (password u)"
  shows \<open>loginSubmit L st1 tok1 b1 =
           ([Send 200 ''<p>Invalid email/password combination</p><a href="/login">Try again</a>''], st1)
         \<and> loginSubmit L st2 tok2 b2 =
           ([Send 200 ''<p>Invalid email/password combination</p><a href="/login">Try again</a>''], st2)
         \<and> fst (loginSubmit L st1 tok1 b1) = fst (loginSubmit L st2 tok2 b2)
         \<and> (fst (loginSubmit L sa ta b) \<noteq> [Redirect ''/members''] \<and>
            fst (loginSubmit L sb tb b) \<noteq> [Redirect ''/members''] \<longrightarrow>
              fst (loginSubmit L sa ta b) = fst (loginSubmit L sb tb b)
              \<and> snd (loginSubmit L sa ta b) = sa \<and> snd (loginSubmit L sb tb b) = sb)\<close>
proof -
  have two: \<open>loginSubmit L st1 tok1 b1 =
           ([Send 200 ''<p>Invalid email/password combination</p><a href="/login">Try again</a>''], st1)
         \<and> loginSubmit L st2 tok2 b2 =
           ([Send 200 ''<p>Invalid email/password combination</p><a href="/login">Try again</a>''], st2)\<close>
    using assms by (simp add: loginSubmit_def)
  have same: "fst (loginSubmit L sa ta b) = fst (loginSubmit L sb tb b)
              \<and> snd (loginSubmit L sa ta b) = sa \<and> snd (loginSubmit L sb tb b) = sb"
    if "fst (loginSubmit L sa ta b) \<noteq> [Redirect ''/members'']"
       "fst (loginSubmit L sb tb b) \<noteq> [Redirect ''/members'']"
    using loginSubmit_unauthenticated [OF that] .
  show ?thesis using two same by simp
qed

theorem login_failure_indistinguishable_witness:
  \<open>loginSubmit demo_lib two_users ''s2''
      [(''email'', Str ''nobody@x.com''), (''password'', Str ''secret1'')] =
     ([Send 200 ''<p>Invalid email/password combination</p><a href="/login">Try again</a>''],
      two_users)
   \<and> loginSubmit demo_lib two_users ''s3''
      [(''email'', Str ''ada@x.com''), (''password'', Str ''wrong'')] =
     ([Send 200 ''<p>Invalid email/password combination</p><a href="/login">Try again</a>''],
      two_users)\<close>
proof -
  have 1: "loginSchema demo_lib [(''email'', Str ''nobody@x.com''), (''password'', Str ''secret1'')]
             = Inr (''nobody@x.com'', ''secret1'')"
    by (simp add: loginSchema_def string_required_def unknown_keys_def demo_lib_def)
  have 2: "loginSchema demo_lib [(''email'', Str ''ada@x.com''), (''password'', Str ''wrong'')]
             = Inr (''ada@x.com'', ''wrong'')"
    by (simp add: loginSchema_def string_required_def unknown_keys_def demo_lib_def)
  have 3: "findOne_email (users two_users) ''nobody@x.com'' = None"
    by (simp add: findOne_email_def two_users_def root_user_def ada_user_def)
  have 4: "findOne_email (users two_users) ''ada@x.com'' = Some ada_user"
    by (simp add: findOne_email_def two_users_def root_user_def ada_user_def)
  have 5: "\<not> bcrypt_compare demo_lib ''wrong'' (password ada_user)"
    by (simp add: demo_lib_def ada_user_def)
  show ?thesis
    using login_failure_indistinguishable [OF 1 2 3 4 5, of "''s2''" "''s3''" two_users "''s2''"
        "[]" two_users "''s3''"]
    by simp
qed


section \<open>Authorization gate\<close>

text \<open>
  C5. A request without a session is redirected by \<^verbatim>\<open>GET /members\<close> (to the home page) and
  by \<^verbatim>\<open>GET /admin\<close> (to the login page); a request whose session has a type other than
  \<^verbatim>\<open>admin\<close> gets the status 403 page from \<^verbatim>\<open>GET /admin\<close>, which is not a redirect.
\<close>

theorem gate_redirect_or_forbidden:
  "(sessions st tok = None \<longrightarrow>
      members st tok = [Redirect ''/''] \<and> admin st tok = [Redirect ''/login''])
   \<and> (sessions st tok = Some su \<and> s_type su \<noteq> ''admin'' \<longrightarrow>
      admin st tok = [Render 403 ''403'' [(''page'', LStr ''403'')]]
      \<and> (\<forall>url. admin st tok \<noteq> [Redirect url]))"
  by (simp add: members_def admin_def)

theorem gate_redirect_or_forbidden_witness:
  "members two_users ''s9'' = [Redirect ''/'']
   \<and> admin two_users ''s9'' = [Redirect ''/login'']
   \<and> admin two_users ''s1'' = [Render 403 ''403'' [(''page'', LStr ''403'')]]"
  using gate_redirect_or_forbidden [of two_users "''s9''" ada_session]
    gate_redirect_or_forbidden [of two_users "''s1''" ada_session]
  by (simp add: two_users_def ada_session_def)

section \<open>Promote and demote\<close>

text \<open>
  C6. Let a signup have created a user with the \<^verbatim>\<open>_id\<close> \<open>g\<close> (it is the last of the
  collection and its type is \<^verbatim>\<open>user\<close>). A promote of \<open>g\<close> by an administrator sets its type
  to \<^verbatim>\<open>admin\<close>, and a demote of \<open>g\<close> by an administrator with another e-mail address then
  gives back the state after the signup: the user's type is \<^verbatim>\<open>user\<close> again. Promote is
  idempotent: promoting a user whose type is already \<^verbatim>\<open>admin\<close> leaves the state as it was.
\<close>

theorem promote_then_demote_restores_role:
  assumes "signupSubmit L g st0 tok b = ([Redirect ''/members''], st1)"
    and "new_ObjectId L (map_of pb ''userId'') = Some g"
    and "sessions st1 ta = Some a" "s_type a = ''admin''"
    and "sessions st1 tb = Some a'" "s_type a' = ''admin''"
    and "s_email a' \<noteq> email (last (users st1))"
    and "new_ObjectId L (map_of pb' ''userId'') = Some oid"
    and "findOne_id (users st) oid = Some u" "type u = Some ''admin''"
  shows "findOne_id (users st1) g = Some (last (users st1))
         \<and> type (last (users st1)) = Some ''user''
         \<and> promote L st1 ta pb =
             ([Redirect ''/admin''],
              st1\<lparr>users := butlast (users st1) @ [(last (users st1))\<lparr>type := Some ''admin''\<rparr>]\<rparr>)
         \<and> demote L (snd (promote L st1 ta pb)) tb pb = ([Redirect ''/admin''], st1)
         \<and> snd (promote L st tc pb') = st"
proof -
  obtain n e p where
    fresh: "findOne_id (users st0) g = None" and
    st1: "st1 = st0\<lparr>users := users st0 @
                       [\<lparr>uid = g, name = n, email = toLowerCase e,
                         password = bcrypt_hash L p, type = Some ''user''\<rparr>],
                     sessions := (sessions st0)(tok \<mapsto>
                       \<lparr>s_id = None, s_name = n, s_email = toLowerCase e, s_type = ''user''\<rparr>)\<rparr>"
    using signupSubmit_redirect [OF assms(1)] by blast
  define d where "d = \<lparr>uid = g, name = n, email = toLowerCase e,
                         password = bcrypt_hash L p, type = Some ''user''\<rparr>"
  have us1: "users st1 = users st0 @ [d]"
    by (simp add: st1 d_def)
  have d: "uid d = g" "type d = Some ''user''" "d\<lparr>type := Some ''user''\<rparr> = d"
    by (simp_all add: d_def)
  have found: "findOne_id (users st1) g = Some (last (users st1))"
    by (simp add: us1 findOne_id_append [OF fresh] d)
  have role: "type (last (users st1)) = Some ''user''"
    by (simp add: us1 d)
  have up: "updateOne_type (users st1) g ''admin'' = users st0 @ [d\<lparr>type := Some ''admin''\<rparr>]"
    by (simp add: us1 updateOne_type_append [OF fresh] d)
  have pro: "promote L st1 ta pb =
      ([Redirect ''/admin''], st1\<lparr>users := users st0 @ [d\<lparr>type := Some ''admin''\<rparr>]\<rparr>)"
    using assms(2,3,4) by (simp add: promote_def up)
  have found2: "findOne_id (users st0 @ [d\<lparr>type := Some ''admin''\<rparr>]) g
                  = Some (d\<lparr>type := Some ''admin''\<rparr>)"
    by (simp add: findOne_id_append [OF fresh] d)
  have down: "updateOne_type (users st0 @ [d\<lparr>type := Some ''admin''\<rparr>]) g ''user'' = users st1"
    by (simp add: updateOne_type_append [OF fresh] d us1)
  have other: "email (d\<lparr>type := Some ''admin''\<rparr>) \<noteq> s_email a'"
    using assms(7) by (simp add: us1)
  have dem: "demote L (snd (promote L st1 ta pb)) tb pb = ([Redirect ''/admin''], st1)"
    using assms(2,5,6) other by (simp add: pro demote_def found2 down)
  have idem: "snd (promote L st tc pb') = st"
    using assms(8) updateOne_type_same [OF assms(9,10)]
    by (simp add: promote_def split: option.split)
  show ?thesis
    using found role pro dem idem by (simp add: us1)
qed

theorem promote_then_demote_restores_role_witness:
  "type (last (users two_users)) = Some ''user''
   \<and> promote demo_lib two_users ''s0'' ada_target =
     ([Redirect ''/admin''],
      two_users\<lparr>users := butlast (users two_users) @
                          [(last (users two_users))\<lparr>type := Some ''admin''\<rparr>]\<rparr>)
   \<and> demote demo_lib (snd (promote demo_lib two_users ''s0'' ada_target)) ''s0'' ada_target =
     ([Redirect ''/admin''], two_users)
   \<and> snd (promote demo_lib two_users ''s0'' root_target) = two_users"
proof -
  have 1: "signupSubmit demo_lib ''507f1f77bcf86cd799439011'' root_only ''s1'' ada_signup =
             ([Redirect ''/members''], two_users)"
    by (simp add: signupSubmit_def signupSchema_def string_required_def unknown_keys_def
        ada_signup_def toLowerCase_Ada root_only_def two_users_def root_user_def ada_user_def
        ada_session_def findOne_email_def insertOne_def findOne_id_def demo_lib_def Let_def)
  have 2: "new_ObjectId demo_lib (map_of ada_target ''userId'') = Some ''507f1f77bcf86cd799439011''"
    by (simp add: demo_lib_def ada_target_def)
  have 3: "sessions two_users ''s0'' = Some root_session" "s_type root_session = ''admin''"
    by (simp_all add: two_users_def root_session_def)
  have 4: "s_email root_session \<noteq> email (last (users two_users))"
    by (simp add: two_users_def root_session_def ada_user_def)
  have 5: "new_ObjectId demo_lib (map_of root_target ''userId'') = Some ''507f191e810c19729de860ea''"
    by (simp add: demo_lib_def root_target_def)
  have 6: "findOne_id (users two_users) ''507f191e810c19729de860ea'' = Some root_user"
    "type root_user = Some ''admin''"
    by (simp_all add: findOne_id_def two_users_def root_user_def)
  show ?thesis
    using promote_then_demote_restores_role [OF 1 2 3 3 4 5 6, of "''s0''"]
    by blast
qed

text \<open>
  C7. A demote by an administrator whose target is found and has the e-mail address of the
  caller's session (which is how the handler recognises the caller's own account) is refused
  with the message that one cannot demote oneself; the state is unchanged, so the target is
  still an administrator and so is the session.
\<close>

theorem self_demote_refused:
  assumes "sessions st tok = Some su" "s_type su = ''admin''"
    and "new_ObjectId L (map_of b ''userId'') = Some oid"
    and "findOne_id (users st) oid = Some targetUser"
    and "email targetUser = s_email su"
  shows "demote L st tok b = ([Send 200 cannot_demote_yourself], st)"
  using assms by (simp add: demote_def)

text \<open>The administrator logs in and tries to demote the account of that login.\<close>

theorem self_demote_refused_witness:
  "demote demo_lib
     (snd (loginSubmit demo_lib logged_out ''s0''
        [(''email'', Str ''root@x.com''), (''password'', Str ''password'')])) ''s0'' root_target =
     ([Send 200 cannot_demote_yourself],
      \<lparr>users = [root_user, ada_user], sessions = (\<lambda>tok. None)(''s0'' \<mapsto> root_session)\<rparr>)"
proof -
  have s: "snd (loginSubmit demo_lib logged_out ''s0''
        [(''email'', Str ''root@x.com''), (''password'', Str ''password'')]) =
      \<lparr>users = [root_user, ada_user], sessions = (\<lambda>tok. None)(''s0'' \<mapsto> root_session)\<rparr>"
    by (simp add: loginSubmit_def loginSchema_def string_required_def unknown_keys_def
        findOne_email_def demo_lib_def logged_out_def root_user_def root_session_def
        type_or_user_def)
  show ?thesis
    unfolding s
    using self_demote_refused [of
        "\<lparr>users = [root_user, ada_user], sessions = (\<lambda>tok. None)(''s0'' \<mapsto> root_session)\<rparr>"
        "''s0''" root_session demo_lib root_target "''507f191e810c19729de860ea''" root_user]
    by (simp add: demo_lib_def root_target_def findOne_id_def root_user_def root_session_def)
qed

text \<open>
  C8. The administrator of the sample state asks to demote an ObjectId that no user has.
  The handler renders the 404 page, does not return, fails on \<^verbatim>\<open>targetUser.email\<close> and
  issues the status 500 page from its \<^verbatim>\<open>catch\<close> block; the state is unchanged.
\<close>

theorem demote_unknown_target_falls_through:
  "demote demo_lib two_users ''s0'' unknown_target =
     ([Render 404 ''404'' [(''page'', LStr ''404'')],
       Render 500 ''error'' [(''message'', LStr ''Error demoting user'')]], two_users)"
  by (simp add: demote_def two_users_def root_session_def demo_lib_def unknown_target_def
      findOne_id_def root_user_def ada_user_def)

text \<open>
  C9. Neither promote nor demote changes the session store: every session keeps the user
  snapshot, and so the type, it had before the request.
\<close>

theorem role_change_keeps_sessions:
  "sessions (snd (promote L st tok b)) = sessions st
   \<and> sessions (snd (demote L st tok b)) = sessions st"
  by (simp add: promote_def demote_def split: option.split)

text \<open>
  After the administrator has promoted Ada, her session still has the type \<^verbatim>\<open>user\<close> and
  \<^verbatim>\<open>GET /admin\<close> still answers it with the status 403 page.
\<close>

theorem role_change_keeps_sessions_witness:
  "sessions (snd (promote demo_lib two_users ''s0'' ada_target)) ''s1'' = Some ada_session
   \<and> admin (snd (promote demo_lib two_users ''s0'' ada_target)) ''s1'' =
       [Render 403 ''403'' [(''page'', LStr ''403'')]]"
  using role_change_keeps_sessions [of demo_lib two_users "''s0''" ada_target]
  by (simp add: admin_def two_users_def ada_session_def)

text \<open>
  C10. A promote by an administrator whose target is a well-formed ObjectId that no user
  has is not looked up: the state, hence every user, is unchanged, and the response is the
  redirect to \<^verbatim>\<open>/admin\<close>, the same response as for a target that exists.
\<close>

theorem promote_unknown_target:
  assumes "sessions st tok = Some su" "s_type su = ''admin''"
    and "new_ObjectId L (map_of b ''userId'') = Some oid"
    and "findOne_id (users st) oid = None"
    and "new_ObjectId L (map_of b' ''userId'') = Some oid'"
    and "findOne_id (users st) oid' = Some u"
  shows "promote L st tok b = ([Redirect ''/admin''], st)
         \<and> fst (promote L st tok b') = fst (promote L st tok b)"
  using assms by (simp add: promote_def updateOne_type_absent)

theorem promote_unknown_target_witness:
  "promote demo_lib two_users ''s0'' unknown_target = ([Redirect ''/admin''], two_users)
   \<and> fst (promote demo_lib two_users ''s0'' ada_target) = [Redirect ''/admin'']"
  using promote_unknown_target [of two_users "''s0''" root_session demo_lib unknown_target
      "''ffffffffffffffffffffffff''" ada_target "''507f1f77bcf86cd799439011''" ada_user]
  by (simp add: two_users_def root_session_def demo_lib_def unknown_target_def ada_target_def
      findOne_id_def root_user_def ada_user_def)

end
